theory Spec2Isabelle
  imports Main "HOL-Library.Word"
begin

section \<open>HTTP plumbing used by the handlers\<close>

text \<open>
  Go errors are modelled by the text that \<open>err.Error()\<close> (and so \<open>%v\<close>) prints.
  Calls to \<open>klog\<close> only log and are left out; \<open>r.Context()\<close> carries no data the
  handlers read.
\<close>

type_synonym error = string

abbreviation StatusOK :: nat where "StatusOK \<equiv> 200"
abbreviation StatusBadRequest :: nat where "StatusBadRequest \<equiv> 400"
abbreviation StatusNotFound :: nat where "StatusNotFound \<equiv> 404"
abbreviation StatusInternalServerError :: nat where "StatusInternalServerError \<equiv> 500"
abbreviation StatusServiceUnavailable :: nat where "StatusServiceUnavailable \<equiv> 503"

text \<open>The JSON structs of \<open>internal/handlers\<close>.\<close>

record DeploymentResponse =
  Name :: string
  Namespace :: string

text \<open>\<open>Replicas *int32\<close>: a nil pointer is \<open>None\<close>.\<close>

record Replicas =
  Replicas :: "32 word option"

record APIError =
  Message :: string

text \<open>\<open>DeploymentResponseWithReplicas\<close> embeds the two structs above.\<close>

record DeploymentResponseWithReplicas =
  embDeploymentResponse :: DeploymentResponse
  embReplicas :: Replicas

record healthResponse =
  Status :: string

text \<open>
  What a handler hands to \<open>json.NewEncoder(w).Encode\<close>. The response body is kept as
  the sequence of encoded documents, so that a claim about a body reads as a claim
  about the struct that was encoded.
\<close>

datatype payload =
    P_APIError APIError
  | P_DeploymentResponses "DeploymentResponse list"
  | P_DeploymentResponseWithReplicas DeploymentResponseWithReplicas
  | P_healthResponse healthResponse

text \<open>
  \<open>http.ResponseWriter\<close>: the status code is fixed by the first \<open>WriteHeader\<close>
  (a later call is superfluous and ignored); \<open>failing\<close> says that writes to the
  connection return an error, which is the only way \<open>Encode\<close> of these structs fails.
\<close>

record ResponseWriter =
  wroteHeader :: bool
  Code :: nat
  HeaderMap :: "string \<rightharpoonup> string"
  Body :: "payload list"
  failing :: bool

definition WriteHeader :: "nat \<Rightarrow> ResponseWriter \<Rightarrow> ResponseWriter" where
  "WriteHeader code w =
     (if wroteHeader w then w else w\<lparr>wroteHeader := True, Code := code\<rparr>)"

definition Header_Set :: "string \<Rightarrow> string \<Rightarrow> ResponseWriter \<Rightarrow> ResponseWriter" where
  "Header_Set k v w = w\<lparr>HeaderMap := (HeaderMap w)(k \<mapsto> v)\<rparr>"

text \<open>A write sends the header with status 200 first when none was written yet.\<close>

definition Encode :: "ResponseWriter \<Rightarrow> payload \<Rightarrow> error option \<times> ResponseWriter" where
  "Encode w v =
     (let w' = WriteHeader StatusOK w in
      if failing w' then (Some ''write error'', w')
      else (None, w'\<lparr>Body := Body w' @ [v]\<rparr>))"

text \<open>\<open>httptest.NewRecorder()\<close>, the writer of the tests.\<close>

definition newResponseRecorder :: ResponseWriter where
  "newResponseRecorder =
     \<lparr>wroteHeader = False, Code = 200, HeaderMap = Map.empty, Body = [], failing = False\<rparr>"

text \<open>
  \<open>http.Request\<close>: the method, \<open>r.URL.Path\<close>, the parsed query \<open>r.URL.Query()\<close>
  as its key/value pairs in the order of the query string, and the body.
\<close>

record Request =
  Method :: string
  URL_Path :: string
  URL_Query :: "(string \<times> string) list"
  Request_Body :: string

text \<open>\<open>url.Values.Get\<close>: the first value of the key, the empty string when it has none.\<close>

definition Values_Get :: "(string \<times> string) list \<Rightarrow> string \<Rightarrow> string" where
  "Values_Get q k = (case map_of q k of None \<Rightarrow> [] | Some v \<Rightarrow> v)"

text \<open>
  \<open>strings.Split(s, sep)\<close> for a separator of one character: the pieces between
  the separators, in order; \<open>cur\<close> is the piece being read. The empty string gives
  one empty piece.
\<close>

fun genSplit :: "string \<Rightarrow> char \<Rightarrow> string \<Rightarrow> string list" where
  "genSplit [] sep cur = [cur]"
| "genSplit (c # cs) sep cur =
     (if c = sep then cur # genSplit cs sep [] else genSplit cs sep (cur @ [c]))"

definition Split :: "string \<Rightarrow> char \<Rightarrow> string list" where
  "Split s sep = genSplit s sep []"

section \<open>The object store client\<close>

text \<open>
  \<open>appsv1.Deployment\<close>, with the fields the handlers read or write:
  \<open>ObjectMeta.Name\<close>, \<open>ObjectMeta.Namespace\<close> and \<open>Spec.Replicas\<close>.
\<close>

record Deployment =
  ObjectMeta_Name :: string
  ObjectMeta_Namespace :: string
  Spec_Replicas :: "32 word option"

text \<open>\<open>client.ObjectKey{Namespace, Name}\<close>.\<close>

datatype ObjectKey = ObjectKey string string

datatype ListOption = InNamespace string

text \<open>
  \<open>client.Client\<close> is an interface; \<open>DeploymentsHandler\<close> embeds one. It is a
  parameter of the model: three operations over a store state \<open>'s\<close>. \<open>Get\<close> and
  \<open>List\<close> read; \<open>Patch\<close> takes the changed object and the base of the merge patch
  (\<open>client.MergeFrom(base)\<close>) and returns the object as the server answered it
  (the Go call overwrites \<open>obj\<close> with it) together with the next store state.
\<close>

record 's Client =
  Client_Get :: "'s \<Rightarrow> ObjectKey \<Rightarrow> error + Deployment"
  Client_List :: "'s \<Rightarrow> ListOption list \<Rightarrow> error + Deployment list"
  Client_Patch :: "'s \<Rightarrow> Deployment \<Rightarrow> Deployment \<Rightarrow> (error + Deployment) \<times> 's"

section \<open>The deployments handler\<close>

definition Validate :: "Replicas \<Rightarrow> error option" where
  "Validate r =
     (case Replicas r of
        None \<Rightarrow> Some ''replicas field is required''
      | Some n \<Rightarrow>
          if sint n < 0 then Some ''replicas field must be greater than or equal to 0''
          else None)"

definition generateListDeploymentsResponse :: "Deployment list \<Rightarrow> DeploymentResponse list" where
  "generateListDeploymentsResponse items =
     foldl (\<lambda>response d.
        response @ [\<lparr>Name = ObjectMeta_Name d, Namespace = ObjectMeta_Namespace d\<rparr>]) [] items"

definition parseNamespaceAndDeploymentNameFromURL :: "Request \<Rightarrow> string \<times> string" where
  "parseNamespaceAndDeploymentNameFromURL r =
     (let pathSegments = Split (URL_Path r) CHR ''/'' in
      if length pathSegments < 4 then ('''', '''')
      else (pathSegments ! 2, pathSegments ! 3))"

definition getDeployment :: "'s Client \<Rightarrow> 's \<Rightarrow> string \<Rightarrow> string \<Rightarrow> error + Deployment" where
  "getDeployment h s namespace deployment =
     (case Client_Get h s (ObjectKey namespace deployment) of
        Inl err \<Rightarrow> Inl err
      | Inr d \<Rightarrow> Inr d)"

definition ListDeployments :: "'s Client \<Rightarrow> 's \<Rightarrow> ResponseWriter \<Rightarrow> Request \<Rightarrow> ResponseWriter" where
  "ListDeployments h s w r =
     (let namespace = Values_Get (URL_Query r) ''namespace'';
          listed = (if namespace \<noteq> '''' then Client_List h s [InNamespace namespace]
                    else Client_List h s [])
      in case listed of
           Inl err \<Rightarrow> WriteHeader StatusInternalServerError w
         | Inr dl \<Rightarrow>
             (let response = generateListDeploymentsResponse dl;
                  w1 = WriteHeader StatusOK w;
                  (err, w2) = Encode w1 (P_DeploymentResponses response)
              in case err of
                   Some e \<Rightarrow> WriteHeader StatusInternalServerError w2
                 | None \<Rightarrow> w2))"

definition GetDeploymentReplicas :: "'s Client \<Rightarrow> 's \<Rightarrow> ResponseWriter \<Rightarrow> Request \<Rightarrow> ResponseWriter" where
  "GetDeploymentReplicas h s w r =
     (let (namespace, deployment) = parseNamespaceAndDeploymentNameFromURL r in
      case getDeployment h s namespace deployment of
        Inl err \<Rightarrow>
          (let w1 = WriteHeader StatusNotFound w;
               (encErr, w2) = Encode w1 (P_APIError \<lparr>Message =
                  ''Error getting deployment '' @ deployment @ '' in namespace '' @ namespace\<rparr>)
           in case encErr of
                Some e \<Rightarrow> WriteHeader StatusInternalServerError w2
              | None \<Rightarrow> w2)
      | Inr d \<Rightarrow>
          (let replicas = Spec_Replicas d;
               w1 = WriteHeader StatusOK w;
               (err, w2) = Encode w1 (P_DeploymentResponseWithReplicas
                  \<lparr>embDeploymentResponse = \<lparr>Name = deployment, Namespace = namespace\<rparr>,
                   embReplicas = \<lparr>Replicas = replicas\<rparr>\<rparr>)
           in case err of
                Some e \<Rightarrow> WriteHeader StatusInternalServerError w2
              | None \<Rightarrow> w2))"

text \<open>
  \<open>json.NewDecoder(r.Body).Decode(&rep)\<close> is the standard library's decoder; it is the
  parameter \<open>Decode\<close>, from the body to an error or the decoded struct. The handler
  returns the writer and the store state after the request.
\<close>

definition SetDeploymentReplicas ::
  "(string \<Rightarrow> error + Replicas) \<Rightarrow> 's Client \<Rightarrow> 's \<Rightarrow> ResponseWriter \<Rightarrow> Request
     \<Rightarrow> ResponseWriter \<times> 's" where
  "SetDeploymentReplicas Decode h s w r =
     (let (namespace, deployment) = parseNamespaceAndDeploymentNameFromURL r in
      case getDeployment h s namespace deployment of
        Inl err \<Rightarrow>
          (let w1 = WriteHeader StatusNotFound w;
               (encErr, w2) = Encode w1 (P_APIError \<lparr>Message =
                  ''Error getting deployment '' @ deployment @ '' in namespace '' @ namespace\<rparr>)
           in case encErr of
                Some e \<Rightarrow> (WriteHeader StatusInternalServerError w2, s)
              | None \<Rightarrow> (w2, s))
      | Inr d \<Rightarrow>
          (case Decode (Request_Body r) of
             Inl err \<Rightarrow>
               (let resp = ''Error parsing request body: '' @ err;
                    w1 = WriteHeader StatusBadRequest w;
                    (encErr, w2) = Encode w1 (P_APIError \<lparr>Message = resp\<rparr>)
                in case encErr of
                     Some e \<Rightarrow> (WriteHeader StatusInternalServerError w2, s)
                   | None \<Rightarrow> (w2, s))
           | Inr rep \<Rightarrow>
               (case Validate rep of
                  Some err \<Rightarrow>
                    (let resp = ''Validation error: '' @ err;
                         w1 = WriteHeader StatusBadRequest w;
                         (encErr, w2) = Encode w1 (P_APIError \<lparr>Message = resp\<rparr>)
                     in case encErr of
                          Some e \<Rightarrow> (WriteHeader StatusInternalServerError w2, s)
                        | None \<Rightarrow> (w2, s))
                | None \<Rightarrow>
                    (let patch = d;
                         d1 = d\<lparr>Spec_Replicas := Replicas rep\<rparr>
                     in case Client_Patch h s d1 patch of
                          (Inl err, s') \<Rightarrow>
                            (let w1 = WriteHeader StatusInternalServerError w;
                                 (encErr, w2) = Encode w1 (P_APIError \<lparr>Message =
                                    ''Error patching deployment '' @ deployment
                                      @ '' in namespace '' @ namespace\<rparr>)
                             in (w2, s'))
                        | (Inr d2, s') \<Rightarrow>
                            (let w1 = WriteHeader StatusOK w;
                                 (err, w2) = Encode w1 (P_DeploymentResponseWithReplicas
                                    \<lparr>embDeploymentResponse =
                                       \<lparr>Name = deployment, Namespace = namespace\<rparr>,
                                     embReplicas = \<lparr>Replicas = Spec_Replicas d2\<rparr>\<rparr>)
                             in case err of
                                  Some e \<Rightarrow> (WriteHeader StatusInternalServerError w2, s')
                                | None \<Rightarrow> (w2, s'))))))"

section \<open>The health handler\<close>

text \<open>
  \<open>rest.Result\<close> as the handler observes it: what \<open>result.Error()\<close> returns and
  what \<open>result.Raw()\<close> returns (the body and an error).
\<close>

record Result =
  Result_Error :: "error option"
  Result_Raw :: "string \<times> error option"

text \<open>
  \<open>HealthzHandler.Client\<close> is a \<open>rest.Interface\<close>; the handler uses it only as
  \<open>Client.Get().AbsPath(path).Do(ctx)\<close>, which is the field below.
\<close>

record HealthzHandler =
  Client :: "string \<Rightarrow> Result"

definition ServeHTTP :: "HealthzHandler \<Rightarrow> ResponseWriter \<Rightarrow> Request \<Rightarrow> ResponseWriter" where
  "ServeHTTP h w r =
     (let result = Client h ''/healthz'';
          err = Result_Error result;
          w0 = Header_Set ''Content-Type'' ''application/json'' w
      in case err of
           Some e \<Rightarrow>
             (let w1 = WriteHeader StatusServiceUnavailable w0;
                  (encErr, w2) = Encode w1 (P_healthResponse \<lparr>Status = ''Error: '' @ e\<rparr>)
              in case encErr of
                   Some x \<Rightarrow> WriteHeader StatusInternalServerError w2
                 | None \<Rightarrow> w2)
         | None \<Rightarrow>
             (let (rawResult, err) = Result_Raw result in
              case err of
                Some e \<Rightarrow>
                  (let w1 = WriteHeader StatusInternalServerError w0;
                       (encErr, w2) = Encode w1
                          (P_healthResponse \<lparr>Status = ''Error reading response: '' @ e\<rparr>)
                   in case encErr of
                        Some x \<Rightarrow> WriteHeader StatusInternalServerError w2
                      | None \<Rightarrow> w2)
              | None \<Rightarrow>
                  if rawResult = ''ok'' then
                    (let w1 = WriteHeader StatusOK w0;
                         (encErr, w2) = Encode w1 (P_healthResponse \<lparr>Status = ''ok''\<rparr>)
                     in case encErr of
                          Some x \<Rightarrow> WriteHeader StatusInternalServerError w2
                        | None \<Rightarrow> w2)
                  else
                    (let w1 = WriteHeader StatusServiceUnavailable w0;
                         (encErr, w2) = Encode w1
                            (P_healthResponse \<lparr>Status = ''unhealthy: '' @ rawResult\<rparr>)
                     in case encErr of
                          Some x \<Rightarrow> WriteHeader StatusInternalServerError w2
                        | None \<Rightarrow> w2)))"

section \<open>The TLS configuration of \<open>run\<close>\<close>

text \<open>The protocol versions of \<open>crypto/tls\<close>, as its \<open>uint16\<close> constants.\<close>

definition VersionTLS10 :: "16 word" where "VersionTLS10 = 0x0301"
definition VersionTLS11 :: "16 word" where "VersionTLS11 = 0x0302"
definition VersionTLS12 :: "16 word" where "VersionTLS12 = 0x0303"
definition VersionTLS13 :: "16 word" where "VersionTLS13 = 0x0304"

datatype ClientAuthType =
    NoClientCert
  | RequestClientCert
  | RequireAnyClientCert
  | VerifyClientCertIfGiven
  | RequireAndVerifyClientCert

text \<open>
  \<open>x509.CertPool\<close> is kept as the PEM blocks appended to it. \<open>tls.Config\<close> has the
  four fields \<open>run\<close> sets and \<open>MaxVersion\<close>, which \<open>run\<close> leaves at Go's zero value.
\<close>

type_synonym CertPool = "string list"

definition NewCertPool :: CertPool where
  "NewCertPool = []"

definition AppendCertsFromPEM :: "CertPool \<Rightarrow> string \<Rightarrow> CertPool" where
  "AppendCertsFromPEM pool pemCerts = pool @ [pemCerts]"

record 'cert Config =
  Certificates :: "'cert list"
  ClientAuth :: ClientAuthType
  ClientCAs :: CertPool
  MinVersion :: "16 word"
  MaxVersion :: "16 word"

text \<open>
  Lines 108 to 128 of \<open>run\<close>, from the results of \<open>tls.LoadX509KeyPair\<close> and
  \<open>os.ReadFile\<close>. \<open>klog.Fatalf\<close> ends the process: the result is its message.
\<close>

definition run_tlsConfig :: "error + 'cert \<Rightarrow> error + string \<Rightarrow> error + 'cert Config" where
  "run_tlsConfig loaded readFile =
     (case loaded of
        Inl err \<Rightarrow> Inl (''Error loading server certificate and private key: '' @ err)
      | Inr cert \<Rightarrow>
          (let caCertPool = NewCertPool in
           case readFile of
             Inl err \<Rightarrow> Inl (''Error loading CA certificate: '' @ err)
           | Inr parsedCaCert \<Rightarrow>
               (let caCertPool = AppendCertsFromPEM caCertPool parsedCaCert in
                Inr \<lparr>Certificates = [cert],
                     ClientAuth = RequireAndVerifyClientCert,
                     ClientCAs = caCertPool,
                     MinVersion = VersionTLS13,
                     MaxVersion = 0\<rparr>)))"

text \<open>
  How the standard library's server reads the two version fields (\<open>crypto/tls\<close>,
  \<open>Config.supportedVersions\<close> and \<open>Config.mutualVersion\<close>): a library version is
  offered unless it is below a non-zero \<open>MinVersion\<close> or above a non-zero
  \<open>MaxVersion\<close>, and a handshake goes on with the first version the peer names that
  is offered; with none, it is rejected.
\<close>

definition supportedVersions :: "16 word list" where
  "supportedVersions = [VersionTLS13, VersionTLS12, VersionTLS11, VersionTLS10]"

definition Config_supportedVersions :: "'cert Config \<Rightarrow> 16 word list" where
  "Config_supportedVersions c =
     filter (\<lambda>v. \<not> (MinVersion c \<noteq> 0 \<and> v < MinVersion c)
                \<and> \<not> (MaxVersion c \<noteq> 0 \<and> v > MaxVersion c)) supportedVersions"

definition Config_mutualVersion :: "'cert Config \<Rightarrow> 16 word list \<Rightarrow> 16 word option" where
  "Config_mutualVersion c peerVersions =
     find (\<lambda>peerVersion. peerVersion \<in> set (Config_supportedVersions c)) peerVersions"

section \<open>A store for running the handlers\<close>

text \<open>
  The tests run the handlers on \<open>fake.NewClientBuilder().WithRuntimeObjects(...)\<close>, a
  client over objects held in memory. Here the store is the list of its objects:
  \<open>Get\<close> finds the object with the key, \<open>List\<close> returns the objects (of one
  namespace under \<open>InNamespace\<close>), and \<open>Patch\<close> sends the difference between the
  changed object and the base, which for these objects is the replica count.
\<close>

definition hasKey :: "ObjectKey \<Rightarrow> Deployment \<Rightarrow> bool" where
  "hasKey k d =
     (case k of ObjectKey namespace name \<Rightarrow>
        ObjectMeta_Namespace d = namespace \<and> ObjectMeta_Name d = name)"

definition fake_Get :: "Deployment list \<Rightarrow> ObjectKey \<Rightarrow> error + Deployment" where
  "fake_Get s k = (case find (hasKey k) s of None \<Rightarrow> Inl ''not found'' | Some d \<Rightarrow> Inr d)"

definition fake_List :: "Deployment list \<Rightarrow> ListOption list \<Rightarrow> error + Deployment list" where
  "fake_List s opts =
     (case opts of
        [] \<Rightarrow> Inr s
      | InNamespace namespace # rest \<Rightarrow>
          Inr (filter (\<lambda>d. ObjectMeta_Namespace d = namespace) s))"

definition fake_Patch ::
  "Deployment list \<Rightarrow> Deployment \<Rightarrow> Deployment \<Rightarrow> (error + Deployment) \<times> Deployment list" where
  "fake_Patch s obj base =
     (let k = ObjectKey (ObjectMeta_Namespace obj) (ObjectMeta_Name obj) in
      case find (hasKey k) s of
        None \<Rightarrow> (Inl ''not found'', s)
      | Some cur \<Rightarrow>
          (let new = (if Spec_Replicas obj = Spec_Replicas base then cur
                      else cur\<lparr>Spec_Replicas := Spec_Replicas obj\<rparr>)
           in (Inr new, map (\<lambda>x. if hasKey k x then new else x) s)))"

definition fake_Client :: "Deployment list Client" where
  "fake_Client =
     \<lparr>Client_Get = fake_Get, Client_List = fake_List, Client_Patch = fake_Patch\<rparr>"

text \<open>
  What the decoder gives on the bodies the tests send: a number, a misspelled key
  (the field stays nil), a negative number; \<open>{\<close> stands for a body that is not JSON.
\<close>

definition testDecode :: "string \<Rightarrow> error + Replicas" where
  \<open>testDecode body =
     (if body = ''{"replicas":7}'' then Inr \<lparr>Replicas = Some 7\<rparr>
      else if body = ''{"replicas":99}'' then Inr \<lparr>Replicas = Some 99\<rparr>
      else if body = ''{"replikas":99}'' then Inr \<lparr>Replicas = None\<rparr>
      else if body = ''{"replicas":-1}'' then Inr \<lparr>Replicas = Some (- 1)\<rparr>
      else Inl ''unexpected EOF'')\<close>

text \<open>A client whose store cannot be reached: every operation returns an error.\<close>

definition unreachable_Client :: "unit Client" where
  "unreachable_Client =
     \<lparr>Client_Get = (\<lambda>s k. Inl ''connection refused''),
      Client_List = (\<lambda>s opts. Inl ''connection refused''),
      Client_Patch = (\<lambda>s obj base. (Inl ''connection refused'', s))\<rparr>"

text \<open>
  The requests and objects of \<open>deployments_test.go\<close>. \<open>newHttpTestRequest\<close> takes
  the URL as its path and its parsed query.
\<close>

definition newHttpTestRequest ::
  "string \<Rightarrow> string \<Rightarrow> (string \<times> string) list \<Rightarrow> string \<Rightarrow> Request" where
  "newHttpTestRequest method path query body =
     \<lparr>Method = method, URL_Path = path, URL_Query = query, Request_Body = body\<rparr>"

definition testDeployment :: Deployment where
  "testDeployment =
     \<lparr>ObjectMeta_Name = ''test-deployment'', ObjectMeta_Namespace = ''test-namespace'',
      Spec_Replicas = Some 3\<rparr>"

definition testDeployment2 :: Deployment where
  "testDeployment2 =
     \<lparr>ObjectMeta_Name = ''test-deployment2'', ObjectMeta_Namespace = ''test-namespace2'',
      Spec_Replicas = None\<rparr>"

definition testDeploymentFooBar :: Deployment where
  "testDeploymentFooBar =
     \<lparr>ObjectMeta_Name = ''bar'', ObjectMeta_Namespace = ''foo'', Spec_Replicas = Some 3\<rparr>"

text \<open>A health handler whose upstream request gives the result \<open>res\<close>.\<close>

definition upstream :: "Result \<Rightarrow> HealthzHandler" where
  "upstream res = \<lparr>Client = (\<lambda>path. res)\<rparr>"

section \<open>What the claims ask of the store\<close>

text \<open>
  The store is outside the repository. Reading back after a patch: when \<open>Get\<close> gave
  \<open>d\<close> under a key and the patch of \<open>d\<close> to a replica count succeeds, the object the
  store answers has that count and is what \<open>Get\<close> gives under the key afterwards.
\<close>

definition read_after_patch :: "'s Client \<Rightarrow> bool" where
  "read_after_patch h \<longleftrightarrow>
     (\<forall>s k d n d' s'.
        Client_Get h s k = Inr d \<longrightarrow>
        Client_Patch h s (d\<lparr>Spec_Replicas := n\<rparr>) d = (Inr d', s') \<longrightarrow>
        Spec_Replicas d' = n \<and> Client_Get h s' k = Inr d')"

text \<open>
  The words of the specification for a list response: the summary \<open>{name, namespace}\<close>
  of a deployment, and the deployments of one namespace, in the order of the list.
\<close>

definition DeploymentSummary :: "Deployment \<Rightarrow> DeploymentResponse" where
  "DeploymentSummary d = \<lparr>Name = ObjectMeta_Name d, Namespace = ObjectMeta_Namespace d\<rparr>"

definition inNamespace :: "string \<Rightarrow> Deployment list \<Rightarrow> Deployment list" where
  "inNamespace namespace ds = filter (\<lambda>d. ObjectMeta_Namespace d = namespace) ds"

section \<open>Basic facts\<close>

lemma WriteHeader_fresh:
  "\<not> wroteHeader w \<Longrightarrow> WriteHeader code w = w\<lparr>wroteHeader := True, Code := code\<rparr>"
  by (simp add: WriteHeader_def)

lemma WriteHeader_written: "wroteHeader w \<Longrightarrow> WriteHeader code w = w"
  by (simp add: WriteHeader_def)

lemma Encode_written:
  "wroteHeader w \<Longrightarrow>
   Encode w v =
     (if failing w then (Some ''write error'', w) else (None, w\<lparr>Body := Body w @ [v]\<rparr>))"
  by (simp add: Encode_def WriteHeader_def)

lemmas respond_simps = WriteHeader_fresh WriteHeader_written Encode_written

lemma foldl_append_one: "foldl (\<lambda>acc x. acc @ [f x]) acc xs = acc @ map f xs"
  by (induction xs arbitrary: acc) simp_all

lemma generateListDeploymentsResponse_map:
  "generateListDeploymentsResponse items = map DeploymentSummary items"
  unfolding generateListDeploymentsResponse_def
  using foldl_append_one [of DeploymentSummary "[]" items]
  by (simp add: DeploymentSummary_def [abs_def])

text \<open>The in-memory store reads back what it patched.\<close>

lemma hasKey_of_key:
  "hasKey k d \<Longrightarrow> ObjectKey (ObjectMeta_Namespace d) (ObjectMeta_Name d) = k"
  by (cases k) (simp add: hasKey_def)

lemma find_map_replace:
  "P y \<Longrightarrow> find P xs = Some x \<Longrightarrow> find P (map (\<lambda>z. if P z then y else z) xs) = Some y"
  by (induction xs) (auto split: if_splits)

lemma fake_read_after_patch: "read_after_patch fake_Client"
  unfolding read_after_patch_def
proof (intro allI impI)
  fix s k d n d' s'
  assume g: "Client_Get fake_Client s k = Inr d"
    and p: "Client_Patch fake_Client s (d\<lparr>Spec_Replicas := n\<rparr>) d = (Inr d', s')"
  from g have f: "find (hasKey k) s = Some d"
    by (simp add: fake_Client_def fake_Get_def split: option.splits)
  then have hk: "hasKey k d"
    by (auto simp add: find_Some_iff)
  then have k: "ObjectKey (ObjectMeta_Namespace d) (ObjectMeta_Name d) = k"
    by (rule hasKey_of_key)
  define new where "new = (if n = Spec_Replicas d then d else d\<lparr>Spec_Replicas := n\<rparr>)"
  from p f k have d': "d' = new"
    and s': "s' = map (\<lambda>x. if hasKey k x then new else x) s"
    by (auto simp add: fake_Client_def fake_Patch_def Let_def new_def)
  have n: "Spec_Replicas d' = n"
    using d' by (simp add: new_def)
  have "hasKey k new"
    using hk by (cases k) (simp add: hasKey_def new_def)
  then have "find (hasKey k) s' = Some d'"
    unfolding s' d' using f by (rule find_map_replace)
  then have "Client_Get fake_Client s' k = Inr d'"
    by (simp add: fake_Client_def fake_Get_def)
  with n show "Spec_Replicas d' = n \<and> Client_Get fake_Client s' k = Inr d'"
    by simp
qed

text \<open>Evaluating the handlers on the requests of the tests.\<close>

lemmas fixture_defs = newHttpTestRequest_def testDeployment_def testDeployment2_def
  testDeploymentFooBar_def Split_def
  newResponseRecorder_def fake_Client_def fake_Get_def fake_List_def fake_Patch_def hasKey_def
  unreachable_Client_def testDecode_def parseNamespaceAndDeploymentNameFromURL_def
  Values_Get_def

lemma recorder_fresh:
  "\<not> wroteHeader newResponseRecorder" "\<not> failing newResponseRecorder"
  "Body newResponseRecorder = []"
  by (simp_all add: newResponseRecorder_def)

lemma newHttpTestRequest_sel:
  "Method (newHttpTestRequest method path q body) = method"
  "URL_Path (newHttpTestRequest method path q body) = path"
  "URL_Query (newHttpTestRequest method path q body) = q"
  "Request_Body (newHttpTestRequest method path q body) = body"
  by (simp_all add: newHttpTestRequest_def)

lemma parse_foo_bar:
  "parseNamespaceAndDeploymentNameFromURL
     (newHttpTestRequest method ''/deployments/foo/bar/replicas'' q body) = (''foo'', ''bar'')"
  by (simp add: fixture_defs)

lemma parse_test_deployment:
  "parseNamespaceAndDeploymentNameFromURL
     (newHttpTestRequest method ''/deployments/test-namespace/test-deployment/replicas'' q body)
   = (''test-namespace'', ''test-deployment'')"
  by (simp add: fixture_defs)

lemma get_foo_bar_missing:
  "Client_Get fake_Client [testDeployment] (ObjectKey ''foo'' ''bar'') = Inl ''not found''"
  by (simp add: fixture_defs)

lemma get_foo_bar_present:
  "Client_Get fake_Client [testDeploymentFooBar] (ObjectKey ''foo'' ''bar'')
     = Inr testDeploymentFooBar"
  by (simp add: fixture_defs)

section \<open>Not-found responses of get and set\<close>

text \<open>
  C1. When the store's \<open>Get\<close> for the namespace and deployment parsed from the URL
  returns an error, whatever the error, \<open>GetDeploymentReplicas\<close> and
  \<open>SetDeploymentReplicas\<close> both answer 404, and the body each writes is the one
  \<open>APIError\<close> with message
  \<open>Error getting deployment <deployment> in namespace <namespace>\<close>: the same
  status and the same message for both methods. The status is fixed even when the
  connection refuses the body.
\<close>

theorem not_found_response:
  assumes "parseNamespaceAndDeploymentNameFromURL r = (namespace, deployment)"
    and "Client_Get h s (ObjectKey namespace deployment) = Inl err"
    and "\<not> wroteHeader w"
  shows "Code (GetDeploymentReplicas h s w r) = StatusNotFound
       \<and> Code (fst (SetDeploymentReplicas Decode h s w r)) = StatusNotFound
       \<and> (\<not> failing w \<longrightarrow>
            Body (GetDeploymentReplicas h s w r) = Body w @ [P_APIError \<lparr>Message =
               ''Error getting deployment '' @ deployment @ '' in namespace '' @ namespace\<rparr>]
          \<and> Body (fst (SetDeploymentReplicas Decode h s w r)) = Body w @ [P_APIError \<lparr>Message =
               ''Error getting deployment '' @ deployment @ '' in namespace '' @ namespace\<rparr>])"
  using assms
  by (simp add: GetDeploymentReplicas_def SetDeploymentReplicas_def getDeployment_def
      respond_simps)

theorem not_found_response_witness:
  "Client_Get fake_Client [testDeployment] (ObjectKey ''foo'' ''bar'') = Inl ''not found''
   \<and> Code (GetDeploymentReplicas fake_Client [testDeployment] newResponseRecorder
        (newHttpTestRequest ''GET'' ''/deployments/foo/bar/replicas'' [] ''''))
       = StatusNotFound
   \<and> Body (GetDeploymentReplicas fake_Client [testDeployment] newResponseRecorder
        (newHttpTestRequest ''GET'' ''/deployments/foo/bar/replicas'' [] ''''))
       = [P_APIError \<lparr>Message = ''Error getting deployment bar in namespace foo''\<rparr>]
   \<and> Code (fst (SetDeploymentReplicas testDecode fake_Client [testDeployment] newResponseRecorder
        (newHttpTestRequest ''GET'' ''/deployments/foo/bar/replicas'' [] '''')))
       = StatusNotFound
   \<and> Body (fst (SetDeploymentReplicas testDecode fake_Client [testDeployment] newResponseRecorder
        (newHttpTestRequest ''GET'' ''/deployments/foo/bar/replicas'' [] '''')))
       = [P_APIError \<lparr>Message = ''Error getting deployment bar in namespace foo''\<rparr>]"
  using not_found_response [where Decode = testDecode,
      OF parse_foo_bar get_foo_bar_missing recorder_fresh(1), of "''GET''" "[]" "''''"]
    get_foo_bar_missing recorder_fresh
  by simp

section \<open>Validation of the decoded body\<close>

text \<open>
  C2. For a set-replicas request on an existing deployment whose body the decoder
  accepts, \<open>Validate\<close> looks at presence first: when the decoded \<open>replicas\<close> is
  absent the answer is 400 with message
  \<open>Validation error: replicas field is required\<close>; when it is present and negative
  the answer is 400 with message
  \<open>Validation error: replicas field must be greater than or equal to 0\<close>. The second
  message is only ever given for a field that is present. (The handler reaches the
  decoder only after the lookup of the deployment succeeded.)
\<close>

theorem validation_presence_before_sign:
  assumes "parseNamespaceAndDeploymentNameFromURL r = (namespace, deployment)"
    and "Client_Get h s (ObjectKey namespace deployment) = Inr d"
    and "Decode (Request_Body r) = Inr rep"
    and "\<not> wroteHeader w" and "\<not> failing w"
  shows "(Replicas rep = None \<longrightarrow>
            Validate rep = Some ''replicas field is required''
          \<and> Code (fst (SetDeploymentReplicas Decode h s w r)) = StatusBadRequest
          \<and> Body (fst (SetDeploymentReplicas Decode h s w r)) = Body w @ [P_APIError
               \<lparr>Message = ''Validation error: replicas field is required''\<rparr>])
       \<and> (\<forall>n. Replicas rep = Some n \<and> sint n < 0 \<longrightarrow>
            Validate rep = Some ''replicas field must be greater than or equal to 0''
          \<and> Code (fst (SetDeploymentReplicas Decode h s w r)) = StatusBadRequest
          \<and> Body (fst (SetDeploymentReplicas Decode h s w r)) = Body w @ [P_APIError
               \<lparr>Message =
                  ''Validation error: replicas field must be greater than or equal to 0''\<rparr>])
       \<and> (Validate rep = Some ''replicas field must be greater than or equal to 0''
            \<longrightarrow> Replicas rep \<noteq> None)"
  using assms
  by (auto simp add: SetDeploymentReplicas_def getDeployment_def Validate_def respond_simps
      split: option.splits if_splits)

theorem validation_presence_before_sign_witness:
  \<open>Code (fst (SetDeploymentReplicas testDecode fake_Client [testDeploymentFooBar]
        newResponseRecorder
        (newHttpTestRequest ''PUT'' ''/deployments/foo/bar/replicas'' [] ''{"replikas":99}'')))
       = StatusBadRequest
   \<and> Body (fst (SetDeploymentReplicas testDecode fake_Client [testDeploymentFooBar]
        newResponseRecorder
        (newHttpTestRequest ''PUT'' ''/deployments/foo/bar/replicas'' [] ''{"replikas":99}'')))
       = [P_APIError \<lparr>Message = ''Validation error: replicas field is required''\<rparr>]
   \<and> Code (fst (SetDeploymentReplicas testDecode fake_Client [testDeploymentFooBar]
        newResponseRecorder
        (newHttpTestRequest ''PUT'' ''/deployments/foo/bar/replicas'' [] ''{"replicas":-1}'')))
       = StatusBadRequest
   \<and> Body (fst (SetDeploymentReplicas testDecode fake_Client [testDeploymentFooBar]
        newResponseRecorder
        (newHttpTestRequest ''PUT'' ''/deployments/foo/bar/replicas'' [] ''{"replicas":-1}'')))
       = [P_APIError \<lparr>Message =
            ''Validation error: replicas field must be greater than or equal to 0''\<rparr>]\<close>
proof -
  have d1: \<open>testDecode (Request_Body
      (newHttpTestRequest ''PUT'' ''/deployments/foo/bar/replicas'' [] ''{"replikas":99}''))
      = Inr \<lparr>Replicas = None\<rparr>\<close>
    by (simp add: fixture_defs)
  have d2: \<open>testDecode (Request_Body
      (newHttpTestRequest ''PUT'' ''/deployments/foo/bar/replicas'' [] ''{"replicas":-1}''))
      = Inr \<lparr>Replicas = Some (- 1)\<rparr>\<close>
    by (simp add: fixture_defs)
  from validation_presence_before_sign [where Decode = testDecode,
      OF parse_foo_bar get_foo_bar_present d1 recorder_fresh(1,2)]
    validation_presence_before_sign [where Decode = testDecode,
      OF parse_foo_bar get_foo_bar_present d2 recorder_fresh(1,2)]
    recorder_fresh(3)
  show ?thesis by simp
qed

section \<open>The lookup comes before the body\<close>

text \<open>
  C3. \<open>SetDeploymentReplicas\<close> looks the deployment up before it reads the body. For
  every decoder and every body: when the lookup fails the answer is 404 with the
  not-found body, so a malformed or invalid body changes nothing there; an answer of
  400 implies that the lookup succeeded; and on an existing deployment a body the
  decoder rejects gives 400 with message \<open>Error parsing request body: <cause>\<close>.
\<close>

theorem lookup_before_body:
  assumes "parseNamespaceAndDeploymentNameFromURL r = (namespace, deployment)"
    and "\<not> wroteHeader w"
  shows "(\<forall>err. Client_Get h s (ObjectKey namespace deployment) = Inl err \<longrightarrow>
            Code (fst (SetDeploymentReplicas Decode h s w r)) = StatusNotFound
          \<and> (\<not> failing w \<longrightarrow>
               Body (fst (SetDeploymentReplicas Decode h s w r)) = Body w @ [P_APIError \<lparr>Message =
                 ''Error getting deployment '' @ deployment @ '' in namespace '' @ namespace\<rparr>]))
       \<and> (Code (fst (SetDeploymentReplicas Decode h s w r)) = StatusBadRequest \<longrightarrow>
            (\<exists>d. Client_Get h s (ObjectKey namespace deployment) = Inr d))
       \<and> (\<forall>d cause. Client_Get h s (ObjectKey namespace deployment) = Inr d
              \<and> Decode (Request_Body r) = Inl cause \<longrightarrow>
            Code (fst (SetDeploymentReplicas Decode h s w r)) = StatusBadRequest
          \<and> (\<not> failing w \<longrightarrow>
               Body (fst (SetDeploymentReplicas Decode h s w r)) = Body w @ [P_APIError \<lparr>Message =
                 ''Error parsing request body: '' @ cause\<rparr>]))"
  using assms
  by (auto simp add: SetDeploymentReplicas_def getDeployment_def respond_simps Let_def
      split: sum.splits option.splits prod.splits)

theorem lookup_before_body_witness:
  "testDecode ''{'' = Inl ''unexpected EOF''
   \<and> Client_Get fake_Client [testDeployment] (ObjectKey ''foo'' ''bar'') = Inl ''not found''
   \<and> Code (fst (SetDeploymentReplicas testDecode fake_Client [testDeployment] newResponseRecorder
        (newHttpTestRequest ''PUT'' ''/deployments/foo/bar/replicas'' [] ''{'')))
       = StatusNotFound
   \<and> Body (fst (SetDeploymentReplicas testDecode fake_Client [testDeployment] newResponseRecorder
        (newHttpTestRequest ''PUT'' ''/deployments/foo/bar/replicas'' [] ''{'')))
       = [P_APIError \<lparr>Message = ''Error getting deployment bar in namespace foo''\<rparr>]
   \<and> Client_Get fake_Client [testDeploymentFooBar] (ObjectKey ''foo'' ''bar'')
       = Inr testDeploymentFooBar
   \<and> Code (fst (SetDeploymentReplicas testDecode fake_Client [testDeploymentFooBar]
        newResponseRecorder
        (newHttpTestRequest ''PUT'' ''/deployments/foo/bar/replicas'' [] ''{'')))
       = StatusBadRequest
   \<and> Body (fst (SetDeploymentReplicas testDecode fake_Client [testDeploymentFooBar]
        newResponseRecorder
        (newHttpTestRequest ''PUT'' ''/deployments/foo/bar/replicas'' [] ''{'')))
       = [P_APIError \<lparr>Message = ''Error parsing request body: unexpected EOF''\<rparr>]"
proof -
  have d: "testDecode (Request_Body
      (newHttpTestRequest ''PUT'' ''/deployments/foo/bar/replicas'' [] ''{''))
      = Inl ''unexpected EOF''" "testDecode ''{'' = Inl ''unexpected EOF''"
    by (simp_all add: fixture_defs)
  from lookup_before_body [where Decode = testDecode and h = fake_Client
        and s = "[testDeployment]", OF parse_foo_bar recorder_fresh(1), of "''PUT''" "[]" "''{''"]
    lookup_before_body [where Decode = testDecode and h = fake_Client
        and s = "[testDeploymentFooBar]", OF parse_foo_bar recorder_fresh(1),
        of "''PUT''" "[]" "''{''"]
    get_foo_bar_missing get_foo_bar_present d recorder_fresh
  show ?thesis by simp
qed

section \<open>The health handler's four outcomes\<close>

text \<open>
  C4. Every call of the health handler ends in exactly one of four ways, tried in this
  order: the upstream request returned an error: 503 with status
  \<open>Error: <cause>\<close>; else the body could not be read: 500 with status
  \<open>Error reading response: <cause>\<close>; else the body is the text \<open>ok\<close>: 200 with
  status \<open>ok\<close>; else 503 with status \<open>unhealthy: <raw body>\<close>. The four
  conditions exclude each other and cover every result.
\<close>

theorem healthz_outcomes:
  assumes "\<not> wroteHeader w" and "\<not> failing w"
    and "result = Client h ''/healthz''"
  shows "(\<forall>cause. Result_Error result = Some cause \<longrightarrow>
            Code (ServeHTTP h w r) = StatusServiceUnavailable
          \<and> Body (ServeHTTP h w r) = Body w @ [P_healthResponse \<lparr>Status = ''Error: '' @ cause\<rparr>])
       \<and> (\<forall>cause. Result_Error result = None \<and> snd (Result_Raw result) = Some cause \<longrightarrow>
            Code (ServeHTTP h w r) = StatusInternalServerError
          \<and> Body (ServeHTTP h w r) = Body w @ [P_healthResponse
               \<lparr>Status = ''Error reading response: '' @ cause\<rparr>])
       \<and> (Result_Error result = None \<and> snd (Result_Raw result) = None
            \<and> fst (Result_Raw result) = ''ok'' \<longrightarrow>
            Code (ServeHTTP h w r) = StatusOK
          \<and> Body (ServeHTTP h w r) = Body w @ [P_healthResponse \<lparr>Status = ''ok''\<rparr>])
       \<and> (Result_Error result = None \<and> snd (Result_Raw result) = None
            \<and> fst (Result_Raw result) \<noteq> ''ok'' \<longrightarrow>
            Code (ServeHTTP h w r) = StatusServiceUnavailable
          \<and> Body (ServeHTTP h w r) = Body w @ [P_healthResponse
               \<lparr>Status = ''unhealthy: '' @ fst (Result_Raw result)\<rparr>])"
  using assms
  by (auto simp add: ServeHTTP_def Header_Set_def respond_simps Let_def split: prod.splits)

theorem healthz_outcomes_witness:
  "Code (ServeHTTP (upstream \<lparr>Result_Error = Some ''connection refused'',
            Result_Raw = ('''', Some ''connection refused'')\<rparr>) newResponseRecorder
          (newHttpTestRequest ''GET'' ''/healthz'' [] '''')) = StatusServiceUnavailable
   \<and> Body (ServeHTTP (upstream \<lparr>Result_Error = Some ''connection refused'',
            Result_Raw = ('''', Some ''connection refused'')\<rparr>) newResponseRecorder
          (newHttpTestRequest ''GET'' ''/healthz'' [] ''''))
       = [P_healthResponse \<lparr>Status = ''Error: connection refused''\<rparr>]
   \<and> Code (ServeHTTP (upstream \<lparr>Result_Error = None,
            Result_Raw = ('''', Some ''unexpected EOF'')\<rparr>) newResponseRecorder
          (newHttpTestRequest ''GET'' ''/healthz'' [] '''')) = StatusInternalServerError
   \<and> Body (ServeHTTP (upstream \<lparr>Result_Error = None,
            Result_Raw = ('''', Some ''unexpected EOF'')\<rparr>) newResponseRecorder
          (newHttpTestRequest ''GET'' ''/healthz'' [] ''''))
       = [P_healthResponse \<lparr>Status = ''Error reading response: unexpected EOF''\<rparr>]
   \<and> Code (ServeHTTP (upstream \<lparr>Result_Error = None, Result_Raw = (''ok'', None)\<rparr>)
          newResponseRecorder (newHttpTestRequest ''GET'' ''/healthz'' [] '''')) = StatusOK
   \<and> Body (ServeHTTP (upstream \<lparr>Result_Error = None, Result_Raw = (''ok'', None)\<rparr>)
          newResponseRecorder (newHttpTestRequest ''GET'' ''/healthz'' [] ''''))
       = [P_healthResponse \<lparr>Status = ''ok''\<rparr>]
   \<and> Code (ServeHTTP (upstream \<lparr>Result_Error = None, Result_Raw = (''etcd failed'', None)\<rparr>)
          newResponseRecorder (newHttpTestRequest ''GET'' ''/healthz'' [] ''''))
       = StatusServiceUnavailable
   \<and> Body (ServeHTTP (upstream \<lparr>Result_Error = None, Result_Raw = (''etcd failed'', None)\<rparr>)
          newResponseRecorder (newHttpTestRequest ''GET'' ''/healthz'' [] ''''))
       = [P_healthResponse \<lparr>Status = ''unhealthy: etcd failed''\<rparr>]"
proof -
  have u: "\<And>res. res = Client (upstream res) ''/healthz''"
    by (simp add: upstream_def)
  note o = healthz_outcomes [OF recorder_fresh(1,2) u,
      of _ "newHttpTestRequest ''GET'' ''/healthz'' [] ''''"]
  from o [of "\<lparr>Result_Error = Some ''connection refused'',
            Result_Raw = ('''', Some ''connection refused'')\<rparr>"]
    o [of "\<lparr>Result_Error = None, Result_Raw = ('''', Some ''unexpected EOF'')\<rparr>"]
    o [of "\<lparr>Result_Error = None, Result_Raw = (''ok'', None)\<rparr>"]
    o [of "\<lparr>Result_Error = None, Result_Raw = (''etcd failed'', None)\<rparr>"]
    recorder_fresh(3)
  show ?thesis by simp
qed

section \<open>Paths with fewer than four segments\<close>

text \<open>
  C7. When the URL path splits at \<open>/\<close> into fewer than four segments, the namespace
  and the deployment both resolve to the empty string; the store has no object under
  the empty key, so its \<open>Get\<close> fails (this is the store's part, taken as the second
  premise), and both \<open>GetDeploymentReplicas\<close> and \<open>SetDeploymentReplicas\<close> answer
  404 with the not-found body in which both names are empty. The answer is never 400.
\<close>

theorem short_path_not_found:
  assumes "length (Split (URL_Path r) CHR ''/'') < 4"
    and "Client_Get h s (ObjectKey '''' '''') = Inl err"
    and "\<not> wroteHeader w"
  shows "parseNamespaceAndDeploymentNameFromURL r = ('''', '''')
       \<and> Code (GetDeploymentReplicas h s w r) = StatusNotFound
       \<and> Code (fst (SetDeploymentReplicas Decode h s w r)) = StatusNotFound
       \<and> Code (GetDeploymentReplicas h s w r) \<noteq> StatusBadRequest
       \<and> Code (fst (SetDeploymentReplicas Decode h s w r)) \<noteq> StatusBadRequest
       \<and> (\<not> failing w \<longrightarrow>
            Body (GetDeploymentReplicas h s w r) = Body w @ [P_APIError \<lparr>Message =
               ''Error getting deployment  in namespace ''\<rparr>]
          \<and> Body (fst (SetDeploymentReplicas Decode h s w r)) = Body w @ [P_APIError \<lparr>Message =
               ''Error getting deployment  in namespace ''\<rparr>])"
  using assms
  by (simp add: GetDeploymentReplicas_def SetDeploymentReplicas_def getDeployment_def
      parseNamespaceAndDeploymentNameFromURL_def respond_simps)

theorem short_path_not_found_witness:
  "length (Split ''/deployments/'' CHR ''/'') < 4
   \<and> Client_Get fake_Client [testDeployment] (ObjectKey '''' '''') = Inl ''not found''
   \<and> parseNamespaceAndDeploymentNameFromURL (newHttpTestRequest ''GET'' ''/deployments/'' [] '''')
       = ('''', '''')
   \<and> Code (GetDeploymentReplicas fake_Client [testDeployment] newResponseRecorder
        (newHttpTestRequest ''GET'' ''/deployments/'' [] '''')) = StatusNotFound
   \<and> Body (GetDeploymentReplicas fake_Client [testDeployment] newResponseRecorder
        (newHttpTestRequest ''GET'' ''/deployments/'' [] ''''))
       = [P_APIError \<lparr>Message = ''Error getting deployment  in namespace ''\<rparr>]
   \<and> Code (fst (SetDeploymentReplicas testDecode fake_Client [testDeployment] newResponseRecorder
        (newHttpTestRequest ''GET'' ''/deployments/'' [] ''''))) = StatusNotFound
   \<and> Body (fst (SetDeploymentReplicas testDecode fake_Client [testDeployment] newResponseRecorder
        (newHttpTestRequest ''GET'' ''/deployments/'' [] '''')))
       = [P_APIError \<lparr>Message = ''Error getting deployment  in namespace ''\<rparr>]"
proof -
  have a: "length (Split (URL_Path (newHttpTestRequest ''GET'' ''/deployments/'' [] ''''))
             CHR ''/'') < 4"
    "length (Split ''/deployments/'' CHR ''/'') < 4"
    by (simp_all add: fixture_defs)
  have b: "Client_Get fake_Client [testDeployment] (ObjectKey '''' '''') = Inl ''not found''"
    by (simp add: fixture_defs)
  from short_path_not_found [where Decode = testDecode, OF a(1) b recorder_fresh(1)]
    a(2) b recorder_fresh
  show ?thesis by simp
qed

section \<open>A failed list answers with the bare status\<close>

text \<open>
  C8. When the store's \<open>List\<close> fails, \<open>ListDeployments\<close> answers 500 and writes
  nothing to the body: no \<open>APIError\<close>, no other content. The error answers of the
  other two handlers differ: whenever \<open>GetDeploymentReplicas\<close> or
  \<open>SetDeploymentReplicas\<close> answers with a status other than 200, the body it writes
  is one \<open>APIError\<close> with a message.
\<close>

theorem list_failure_bare_500:
  assumes "\<not> wroteHeader w"
    and "namespace = Values_Get (URL_Query r) ''namespace''"
    and "Client_List h s (if namespace \<noteq> '''' then [InNamespace namespace] else []) = Inl err"
  shows "Code (ListDeployments h s w r) = StatusInternalServerError
       \<and> Body (ListDeployments h s w r) = Body w
       \<and> (\<not> failing w \<longrightarrow>
            (Code (GetDeploymentReplicas h s w r') \<noteq> StatusOK \<longrightarrow>
               (\<exists>m. Body (GetDeploymentReplicas h s w r') = Body w @ [P_APIError \<lparr>Message = m\<rparr>]))
          \<and> (Code (fst (SetDeploymentReplicas Decode h s w r')) \<noteq> StatusOK \<longrightarrow>
               (\<exists>m. Body (fst (SetDeploymentReplicas Decode h s w r'))
                      = Body w @ [P_APIError \<lparr>Message = m\<rparr>])))"
proof -
  have l: "Code (ListDeployments h s w r) = StatusInternalServerError
       \<and> Body (ListDeployments h s w r) = Body w"
    using assms
    by (cases "namespace = []") (simp_all add: ListDeployments_def Let_def respond_simps)
  have g: "\<not> failing w \<Longrightarrow> Code (GetDeploymentReplicas h s w r') \<noteq> StatusOK \<Longrightarrow>
      \<exists>m. Body (GetDeploymentReplicas h s w r') = Body w @ [P_APIError \<lparr>Message = m\<rparr>]"
    using assms(1)
    by (auto simp add: GetDeploymentReplicas_def respond_simps split: prod.splits sum.splits)
  have p: "\<not> failing w \<Longrightarrow> Code (fst (SetDeploymentReplicas Decode h s w r')) \<noteq> StatusOK \<Longrightarrow>
      \<exists>m. Body (fst (SetDeploymentReplicas Decode h s w r'))
            = Body w @ [P_APIError \<lparr>Message = m\<rparr>]"
    using assms(1)
    by (auto simp add: SetDeploymentReplicas_def respond_simps
        split: prod.splits sum.splits option.splits)
  from l g p show ?thesis by blast
qed

theorem list_failure_bare_500_witness:
  "Client_List unreachable_Client () [] = Inl ''connection refused''
   \<and> Code (ListDeployments unreachable_Client () newResponseRecorder
        (newHttpTestRequest ''GET'' ''/deployments'' [] '''')) = StatusInternalServerError
   \<and> Body (ListDeployments unreachable_Client () newResponseRecorder
        (newHttpTestRequest ''GET'' ''/deployments'' [] '''')) = []
   \<and> Code (GetDeploymentReplicas unreachable_Client () newResponseRecorder
        (newHttpTestRequest ''GET'' ''/deployments/foo/bar/replicas'' [] '''')) = StatusNotFound
   \<and> (\<exists>m. Body (GetDeploymentReplicas unreachable_Client () newResponseRecorder
        (newHttpTestRequest ''GET'' ''/deployments/foo/bar/replicas'' [] ''''))
          = [P_APIError \<lparr>Message = m\<rparr>])"
proof -
  have q: "[] = Values_Get (URL_Query (newHttpTestRequest ''GET'' ''/deployments'' [] ''''))
             ''namespace''"
    by (simp add: fixture_defs)
  have l: "Client_List unreachable_Client ()
             (if ([]::string) \<noteq> '''' then [InNamespace []] else []) = Inl ''connection refused''"
    "Client_List unreachable_Client () [] = Inl ''connection refused''"
    by (simp_all add: fixture_defs)
  have c: "Code (GetDeploymentReplicas unreachable_Client () newResponseRecorder
        (newHttpTestRequest ''GET'' ''/deployments/foo/bar/replicas'' [] '''')) = StatusNotFound"
    by (simp add: GetDeploymentReplicas_def getDeployment_def parse_foo_bar
        unreachable_Client_def WriteHeader_def Encode_def newResponseRecorder_def)
  from list_failure_bare_500 [where Decode = testDecode, OF recorder_fresh(1) q l(1),
      of "newHttpTestRequest ''GET'' ''/deployments/foo/bar/replicas'' [] ''''"]
    l(2) c recorder_fresh
  show ?thesis by simp
qed

section \<open>No patch before the checks have passed\<close>

text \<open>
  C10. \<open>SetDeploymentReplicas\<close> passes the store state through unchanged unless it
  calls \<open>Patch\<close>, and this holds for every client, also one that records each call.
  So when the answer is 404 (not found) or 400 (body not parsed, or validation
  failed), no patch was issued and the store is as it was; and whenever the store
  changed, the lookup, the decoding and the validation had all succeeded and the new
  state is the one \<open>Patch\<close> returned.
\<close>

theorem no_patch_before_checks_pass:
  assumes "\<not> wroteHeader w"
    and "parseNamespaceAndDeploymentNameFromURL r = (namespace, deployment)"
    and "SetDeploymentReplicas Decode h s w r = (w', s')"
  shows "(Code w' = StatusNotFound \<or> Code w' = StatusBadRequest \<longrightarrow> s' = s)
       \<and> (s' \<noteq> s \<longrightarrow>
            (\<exists>d rep. Client_Get h s (ObjectKey namespace deployment) = Inr d
                \<and> Decode (Request_Body r) = Inr rep
                \<and> Validate rep = None
                \<and> s' = snd (Client_Patch h s (d\<lparr>Spec_Replicas := Replicas rep\<rparr>) d)))"
  using assms
  by (auto simp add: SetDeploymentReplicas_def getDeployment_def respond_simps
      split: prod.splits sum.splits option.splits if_splits)

theorem no_patch_before_checks_pass_witness:
  \<open>Code (fst (SetDeploymentReplicas testDecode fake_Client [testDeploymentFooBar]
        newResponseRecorder
        (newHttpTestRequest ''PUT'' ''/deployments/foo/bar/replicas'' [] ''{"replicas":-1}'')))
       = StatusBadRequest
   \<and> snd (SetDeploymentReplicas testDecode fake_Client [testDeploymentFooBar]
        newResponseRecorder
        (newHttpTestRequest ''PUT'' ''/deployments/foo/bar/replicas'' [] ''{"replicas":-1}''))
       = [testDeploymentFooBar]
   \<and> snd (SetDeploymentReplicas testDecode fake_Client [testDeploymentFooBar]
        newResponseRecorder
        (newHttpTestRequest ''PUT'' ''/deployments/foo/bar/replicas'' [] ''{"replicas":7}''))
       \<noteq> [testDeploymentFooBar]
   \<and> (\<exists>d rep. Client_Get fake_Client [testDeploymentFooBar] (ObjectKey ''foo'' ''bar'') = Inr d
         \<and> testDecode ''{"replicas":7}'' = Inr rep \<and> Validate rep = None)\<close>
proof -
  let ?bad = \<open>newHttpTestRequest ''PUT'' ''/deployments/foo/bar/replicas'' [] ''{"replicas":-1}''\<close>
  let ?good = \<open>newHttpTestRequest ''PUT'' ''/deployments/foo/bar/replicas'' [] ''{"replicas":7}''\<close>
  let ?run = "SetDeploymentReplicas testDecode fake_Client [testDeploymentFooBar]
                newResponseRecorder"
  have c: "Code (fst (?run ?bad)) = StatusBadRequest"
    by (simp add: SetDeploymentReplicas_def getDeployment_def parse_foo_bar get_foo_bar_present
        Validate_def testDecode_def newHttpTestRequest_sel WriteHeader_def Encode_def
        newResponseRecorder_def)
  have n: "snd (?run ?good) \<noteq> [testDeploymentFooBar]"
    by (simp add: SetDeploymentReplicas_def getDeployment_def parse_foo_bar get_foo_bar_present
        Validate_def testDecode_def newHttpTestRequest_sel WriteHeader_def Encode_def
        newResponseRecorder_def fake_Client_def fake_Get_def fake_Patch_def hasKey_def
        testDeploymentFooBar_def Let_def)
  have b: \<open>Request_Body ?good = ''{"replicas":7}''\<close>
    by (simp add: newHttpTestRequest_sel)
  have e1: "?run ?bad = (fst (?run ?bad), snd (?run ?bad))"
    and e2: "?run ?good = (fst (?run ?good), snd (?run ?good))"
    by simp_all
  from no_patch_before_checks_pass [OF recorder_fresh(1) parse_foo_bar e1]
    no_patch_before_checks_pass [OF recorder_fresh(1) parse_foo_bar e2]
    c n b
  show ?thesis by auto
qed

section \<open>Listing, with and without a namespace\<close>

text \<open>
  C5 (as amended). \<open>ListDeployments\<close> reads the first value of the query parameter
  \<open>namespace\<close>. When that value is not empty, the list is asked of the store for that
  namespace, and the response is the deployments of the store in that namespace; when
  the parameter is absent or its value is empty, the list spans all namespaces. In
  both cases each deployment is projected to \<open>{name, namespace}\<close> and the order
  the store returned is kept: nothing is sorted, dropped or merged. What the store
  returns for a namespace is the store's part: the last two premises.
\<close>

theorem list_scoped_by_nonempty_namespace:
  assumes "\<not> wroteHeader w" and "\<not> failing w"
    and "namespace = Values_Get (URL_Query r) ''namespace''"
    and "Client_List h s [] = Inr known"
    and "namespace \<noteq> '''' \<longrightarrow>
           Client_List h s [InNamespace namespace] = Inr (inNamespace namespace known)"
  shows "Code (ListDeployments h s w r) = StatusOK
       \<and> Body (ListDeployments h s w r) = Body w @ [P_DeploymentResponses
            (map DeploymentSummary
               (if namespace = '''' then known else inNamespace namespace known))]"
  using assms
  by (auto simp add: ListDeployments_def generateListDeploymentsResponse_map respond_simps)

theorem list_scoped_by_nonempty_namespace_witness:
  "Body (ListDeployments fake_Client [testDeployment, testDeployment2] newResponseRecorder
      (newHttpTestRequest ''GET'' ''/deployments'' [(''namespace'', ''test-namespace'')] ''''))
     = [P_DeploymentResponses [\<lparr>Name = ''test-deployment'', Namespace = ''test-namespace''\<rparr>]]
   \<and> Body (ListDeployments fake_Client [testDeployment, testDeployment2] newResponseRecorder
      (newHttpTestRequest ''GET'' ''/deployments'' [] ''''))
     = [P_DeploymentResponses [\<lparr>Name = ''test-deployment'', Namespace = ''test-namespace''\<rparr>,
          \<lparr>Name = ''test-deployment2'', Namespace = ''test-namespace2''\<rparr>]]"
proof -
  let ?s = "[testDeployment, testDeployment2]"
  have q1: "''test-namespace'' = Values_Get (URL_Query
      (newHttpTestRequest ''GET'' ''/deployments'' [(''namespace'', ''test-namespace'')] ''''))
      ''namespace''"
    and q2: "'''' = Values_Get (URL_Query (newHttpTestRequest ''GET'' ''/deployments'' [] ''''))
      ''namespace''"
    by (simp_all add: newHttpTestRequest_sel Values_Get_def)
  have l: "Client_List fake_Client ?s [] = Inr ?s"
    by (simp add: fake_Client_def fake_List_def)
  have n1: "''test-namespace'' \<noteq> '''' \<longrightarrow>
      Client_List fake_Client ?s [InNamespace ''test-namespace'']
        = Inr (inNamespace ''test-namespace'' ?s)"
    and n2: "('''' :: string) \<noteq> '''' \<longrightarrow>
      Client_List fake_Client ?s [InNamespace ''''] = Inr (inNamespace '''' ?s)"
    by (simp_all add: fake_Client_def fake_List_def inNamespace_def)
  from list_scoped_by_nonempty_namespace [OF recorder_fresh(1,2) q1 l n1]
    list_scoped_by_nonempty_namespace [OF recorder_fresh(1,2) q2 l n2]
    recorder_fresh(3)
  show ?thesis
    by (simp add: inNamespace_def DeploymentSummary_def testDeployment_def testDeployment2_def)
qed

text \<open>
  The claim as first stated fails when the parameter is present with an empty value,
  as in \<open>/deployments?namespace=\<close>: the response lists the deployments of all
  namespaces, while no deployment of the store has the empty namespace.
\<close>

theorem list_empty_namespace_counterexample:
  "map_of (URL_Query (newHttpTestRequest ''GET'' ''/deployments'' [(''namespace'', '''')] ''''))
      ''namespace'' = Some ''''
   \<and> Body (ListDeployments fake_Client [testDeployment, testDeployment2] newResponseRecorder
        (newHttpTestRequest ''GET'' ''/deployments'' [(''namespace'', '''')] ''''))
       = [P_DeploymentResponses [\<lparr>Name = ''test-deployment'', Namespace = ''test-namespace''\<rparr>,
            \<lparr>Name = ''test-deployment2'', Namespace = ''test-namespace2''\<rparr>]]
   \<and> map DeploymentSummary (inNamespace '''' [testDeployment, testDeployment2]) = []
   \<and> Body (ListDeployments fake_Client [testDeployment, testDeployment2] newResponseRecorder
        (newHttpTestRequest ''GET'' ''/deployments'' [(''namespace'', '''')] ''''))
       \<noteq> [P_DeploymentResponses
            (map DeploymentSummary (inNamespace '''' [testDeployment, testDeployment2]))]"
  by (simp add: ListDeployments_def generateListDeploymentsResponse_def newHttpTestRequest_sel
      Values_Get_def fake_Client_def fake_List_def newResponseRecorder_def WriteHeader_def
      Encode_def inNamespace_def testDeployment_def testDeployment2_def)

section \<open>Setting and then getting the replica count\<close>

text \<open>
  C6. Over a store that reads back what it patched (\<open>read_after_patch\<close>; no other
  writer comes between, as the state the set request returns is the state the get
  request reads): when a set-replicas request whose body decodes to \<open>replicas = N\<close>
  is answered 200, then \<open>N\<close> is not negative, the body of that answer already
  reports \<open>replicas = N\<close>, and a get-replicas request for the same path is answered
  200 with \<open>replicas = N\<close>.
\<close>

theorem set_then_get_roundtrip:
  assumes "read_after_patch h"
    and "\<not> wroteHeader w" and "\<not> failing w"
    and "\<not> wroteHeader wg" and "\<not> failing wg"
    and "parseNamespaceAndDeploymentNameFromURL r = (namespace, deployment)"
    and "Decode (Request_Body r) = Inr \<lparr>Replicas = Some N\<rparr>"
    and "SetDeploymentReplicas Decode h s w r = (w', s')"
    and "Code w' = StatusOK"
    and "URL_Path rg = URL_Path r"
  shows "0 \<le> sint N
       \<and> Body w' = Body w @ [P_DeploymentResponseWithReplicas
            \<lparr>embDeploymentResponse = \<lparr>Name = deployment, Namespace = namespace\<rparr>,
             embReplicas = \<lparr>Replicas = Some N\<rparr>\<rparr>]
       \<and> Code (GetDeploymentReplicas h s' wg rg) = StatusOK
       \<and> Body (GetDeploymentReplicas h s' wg rg) = Body wg @ [P_DeploymentResponseWithReplicas
            \<lparr>embDeploymentResponse = \<lparr>Name = deployment, Namespace = namespace\<rparr>,
             embReplicas = \<lparr>Replicas = Some N\<rparr>\<rparr>]"
proof -
  let ?k = "ObjectKey namespace deployment"
  from assms obtain d where d: "Client_Get h s ?k = Inr d"
    by (auto simp add: SetDeploymentReplicas_def getDeployment_def respond_simps
        split: prod.splits sum.splits option.splits if_splits)
  from assms d have v: "Validate \<lparr>Replicas = Some N\<rparr> = None"
    by (auto simp add: SetDeploymentReplicas_def getDeployment_def respond_simps
        split: prod.splits sum.splits option.splits if_splits)
  from assms d v obtain d2 where
    p: "Client_Patch h s (d\<lparr>Spec_Replicas := Some N\<rparr>) d = (Inr d2, s')"
    by (auto simp add: SetDeploymentReplicas_def getDeployment_def respond_simps
        split: prod.splits sum.splits option.splits if_splits)
  from assms(1) d p have law: "Spec_Replicas d2 = Some N \<and> Client_Get h s' ?k = Inr d2"
    unfolding read_after_patch_def by blast
  have n: "0 \<le> sint N"
    using v by (simp add: Validate_def split: if_splits)
  have b: "Body w' = Body w @ [P_DeploymentResponseWithReplicas
            \<lparr>embDeploymentResponse = \<lparr>Name = deployment, Namespace = namespace\<rparr>,
             embReplicas = \<lparr>Replicas = Some N\<rparr>\<rparr>]"
    using assms d v p law
    by (auto simp add: SetDeploymentReplicas_def getDeployment_def respond_simps)
  have pg: "parseNamespaceAndDeploymentNameFromURL rg = (namespace, deployment)"
    using assms by (simp add: parseNamespaceAndDeploymentNameFromURL_def)
  have g: "Code (GetDeploymentReplicas h s' wg rg) = StatusOK
       \<and> Body (GetDeploymentReplicas h s' wg rg) = Body wg @ [P_DeploymentResponseWithReplicas
            \<lparr>embDeploymentResponse = \<lparr>Name = deployment, Namespace = namespace\<rparr>,
             embReplicas = \<lparr>Replicas = Some N\<rparr>\<rparr>]"
    using assms(4,5) pg law
    by (simp add: GetDeploymentReplicas_def getDeployment_def respond_simps)
  from n b g show ?thesis by simp
qed

theorem set_then_get_roundtrip_witness:
  \<open>Code (fst (SetDeploymentReplicas testDecode fake_Client [testDeployment] newResponseRecorder
      (newHttpTestRequest ''PUT'' ''/deployments/test-namespace/test-deployment/replicas'' []
         ''{"replicas":7}''))) = StatusOK
   \<and> Body (fst (SetDeploymentReplicas testDecode fake_Client [testDeployment] newResponseRecorder
      (newHttpTestRequest ''PUT'' ''/deployments/test-namespace/test-deployment/replicas'' []
         ''{"replicas":7}'')))
     = [P_DeploymentResponseWithReplicas
          \<lparr>embDeploymentResponse = \<lparr>Name = ''test-deployment'', Namespace = ''test-namespace''\<rparr>,
           embReplicas = \<lparr>Replicas = Some 7\<rparr>\<rparr>]
   \<and> Code (GetDeploymentReplicas fake_Client
        (snd (SetDeploymentReplicas testDecode fake_Client [testDeployment] newResponseRecorder
          (newHttpTestRequest ''PUT'' ''/deployments/test-namespace/test-deployment/replicas'' []
             ''{"replicas":7}'')))
        newResponseRecorder
        (newHttpTestRequest ''GET'' ''/deployments/test-namespace/test-deployment/replicas'' []
           '''')) = StatusOK
   \<and> Body (GetDeploymentReplicas fake_Client
        (snd (SetDeploymentReplicas testDecode fake_Client [testDeployment] newResponseRecorder
          (newHttpTestRequest ''PUT'' ''/deployments/test-namespace/test-deployment/replicas'' []
             ''{"replicas":7}'')))
        newResponseRecorder
        (newHttpTestRequest ''GET'' ''/deployments/test-namespace/test-deployment/replicas'' []
           ''''))
     = [P_DeploymentResponseWithReplicas
          \<lparr>embDeploymentResponse = \<lparr>Name = ''test-deployment'', Namespace = ''test-namespace''\<rparr>,
           embReplicas = \<lparr>Replicas = Some 7\<rparr>\<rparr>]\<close>
proof -
  let ?put = \<open>newHttpTestRequest ''PUT'' ''/deployments/test-namespace/test-deployment/replicas''
                [] ''{"replicas":7}''\<close>
  let ?get = "newHttpTestRequest ''GET'' ''/deployments/test-namespace/test-deployment/replicas''
                [] ''''"
  let ?run = "SetDeploymentReplicas testDecode fake_Client [testDeployment] newResponseRecorder
                ?put"
  have d: "testDecode (Request_Body ?put) = Inr \<lparr>Replicas = Some 7\<rparr>"
    by (simp add: newHttpTestRequest_sel testDecode_def)
  have e: "?run = (fst ?run, snd ?run)"
    by simp
  have c: "Code (fst ?run) = StatusOK"
    by (simp add: SetDeploymentReplicas_def getDeployment_def parse_test_deployment
        Validate_def testDecode_def newHttpTestRequest_sel WriteHeader_def Encode_def
        newResponseRecorder_def fake_Client_def fake_Get_def fake_Patch_def hasKey_def
        testDeployment_def Let_def)
  have u: "URL_Path ?get = URL_Path ?put"
    by (simp add: newHttpTestRequest_sel)
  from set_then_get_roundtrip [where Decode = testDecode and r = ?put and rg = ?get,
      OF fake_read_after_patch recorder_fresh(1,2) recorder_fresh(1,2)
         parse_test_deployment d e c u]
    c recorder_fresh(3)
  show ?thesis by simp
qed

section \<open>The TLS configuration\<close>

text \<open>
  C9. When \<open>run\<close> gets past loading the certificate and reading the CA file, the
  TLS configuration it builds presents exactly the loaded server certificate, has
  client authentication \<open>RequireAndVerifyClientCert\<close> with the pool made from the CA
  file as \<open>ClientCAs\<close>, and has \<open>MinVersion = VersionTLS13\<close>, the highest version
  the library supports; under the library's reading of the version fields the server
  then offers TLS 1.3 only, and a handshake in which the peer names only lower
  versions finds no common version and is rejected.
\<close>

theorem tls_config_of_run:
  assumes "run_tlsConfig loaded readFile = Inr cfg"
  shows "\<exists>cert parsedCaCert. loaded = Inr cert \<and> readFile = Inr parsedCaCert
       \<and> Certificates cfg = [cert]
       \<and> ClientAuth cfg = RequireAndVerifyClientCert
       \<and> ClientCAs cfg = AppendCertsFromPEM NewCertPool parsedCaCert
       \<and> MinVersion cfg = VersionTLS13
       \<and> (\<forall>v \<in> set supportedVersions. v \<le> VersionTLS13)
       \<and> Config_supportedVersions cfg = [VersionTLS13]
       \<and> (\<forall>peerVersions. (\<forall>v \<in> set peerVersions. v < VersionTLS13) \<longrightarrow>
             Config_mutualVersion cfg peerVersions = None)"
proof -
  from assms obtain cert parsedCaCert where l: "loaded = Inr cert"
    and f: "readFile = Inr parsedCaCert"
    and c: "cfg = \<lparr>Certificates = [cert], ClientAuth = RequireAndVerifyClientCert,
               ClientCAs = AppendCertsFromPEM NewCertPool parsedCaCert,
               MinVersion = VersionTLS13, MaxVersion = 0\<rparr>"
    by (auto simp add: run_tlsConfig_def Let_def split: sum.splits)
  have m: "\<forall>v \<in> set supportedVersions. v \<le> VersionTLS13"
    by (simp add: supportedVersions_def VersionTLS10_def VersionTLS11_def VersionTLS12_def
        VersionTLS13_def)
  have s: "Config_supportedVersions cfg = [VersionTLS13]"
    by (simp add: c Config_supportedVersions_def supportedVersions_def VersionTLS10_def
        VersionTLS11_def VersionTLS12_def VersionTLS13_def)
  have r: "\<forall>peerVersions. (\<forall>v \<in> set peerVersions. v < VersionTLS13) \<longrightarrow>
             Config_mutualVersion cfg peerVersions = None"
    by (auto simp add: Config_mutualVersion_def s find_None_iff)
  from l f c m s r show ?thesis by simp
qed

theorem tls_config_of_run_witness:
  "run_tlsConfig (Inr ''server.crt'') (Inr ''ca.crt'')
     = Inr \<lparr>Certificates = [''server.crt''], ClientAuth = RequireAndVerifyClientCert,
            ClientCAs = [''ca.crt''], MinVersion = VersionTLS13, MaxVersion = 0\<rparr>
   \<and> Config_mutualVersion
        \<lparr>Certificates = [''server.crt''], ClientAuth = RequireAndVerifyClientCert,
         ClientCAs = [''ca.crt''], MinVersion = VersionTLS13, MaxVersion = 0\<rparr>
        [VersionTLS12, VersionTLS11] = None
   \<and> Config_mutualVersion
        \<lparr>Certificates = [''server.crt''], ClientAuth = RequireAndVerifyClientCert,
         ClientCAs = [''ca.crt''], MinVersion = VersionTLS13, MaxVersion = 0\<rparr>
        [VersionTLS12, VersionTLS13] = Some VersionTLS13"
proof -
  let ?cfg = "\<lparr>Certificates = [''server.crt''], ClientAuth = RequireAndVerifyClientCert,
         ClientCAs = [''ca.crt''], MinVersion = VersionTLS13, MaxVersion = 0\<rparr>"
  have a: "run_tlsConfig (Inr ''server.crt'') (Inr ''ca.crt'') = Inr ?cfg"
    by (simp add: run_tlsConfig_def NewCertPool_def AppendCertsFromPEM_def)
  have b: "\<forall>v \<in> set [VersionTLS12, VersionTLS11]. v < VersionTLS13"
    by (simp add: VersionTLS11_def VersionTLS12_def VersionTLS13_def)
  have g: "Config_mutualVersion ?cfg [VersionTLS12, VersionTLS13] = Some VersionTLS13"
    by (simp add: Config_mutualVersion_def Config_supportedVersions_def supportedVersions_def
        VersionTLS10_def VersionTLS11_def VersionTLS12_def VersionTLS13_def)
  from tls_config_of_run [OF a] a b g show ?thesis by auto
qed

end
